theory Spec2Isabelle
  imports Main
begin

section \<open>Quantity specification concepts (bits/quantity\_spec\_concepts.h)\<close>

text \<open>
  The concepts of this header are predicates on C++ types. A type is a cv-qualifier on
  an unqualified type, and the unqualified types that the concepts can tell apart are: a
  specialization of the class template \<open>quantity_spec\<close> (its template arguments kept as
  they are spelled), a class with its base specifiers (virtual or not, an access
  specifier, the base class), specializations of the expression templates \<open>power\<close>,
  \<open>per\<close> and \<open>derived_quantity_spec\<close>, and any type that is not a class.

  Modelled from the spec: the class templates \<open>quantity_spec\<close>, \<open>power\<close>, \<open>per\<close> and
  \<open>derived_quantity_spec\<close> are only declared or used in this header, their definitions are
  elsewhere. A Power node is a pair of a factor and an exponent, a Per node groups
  factors, and named and derived specifications are two separate families: the
  specializations of these four templates are taken without base classes of their own.
\<close>

type_synonym template_arg = string

datatype cv_qualifier = cv_none | cv_const | cv_volatile | cv_const_volatile

datatype access_specifier = access_public | access_protected | access_private

datatype cpp_type = cv_type cv_qualifier unqualified_type
and unqualified_type =
    T_quantity_spec "template_arg list"
  | T_class string "base_specifier list"
  | T_power cpp_type "int list"
  | T_per "cpp_type list"
  | T_derived_quantity_spec "cpp_type list"
  | T_other string
and base_specifier = base_specifier bool access_specifier unqualified_type

text \<open>
  \<open>is_specialization_of_quantity_spec<T>\<close>: the primary template is false, the partial
  specialization for \<open>quantity_spec<...>\<close> is true. A partial specialization written for
  the unqualified type does not match a cv-qualified one.
\<close>

fun is_specialization_of_quantity_spec :: "cpp_type \<Rightarrow> bool" where
  "is_specialization_of_quantity_spec (cv_type cv_none (T_quantity_spec args)) = True"
| "is_specialization_of_quantity_spec _ = False"

text \<open>
  The class hierarchy below a type: all its direct and indirect base classes, those
  reached through public inheritance only, its virtual base classes, and its subobjects.
  A base class inherited several times gives one subobject for each non-virtual path and
  one more, shared, if it is also a virtual base.
\<close>

fun base_classes :: "unqualified_type \<Rightarrow> unqualified_type list"
and base_classes_list :: "base_specifier list \<Rightarrow> unqualified_type list" where
  "base_classes (T_class name bases) = base_classes_list bases"
| "base_classes (T_quantity_spec args) = []"
| "base_classes (T_power F vs) = []"
| "base_classes (T_per Ts) = []"
| "base_classes (T_derived_quantity_spec Expr) = []"
| "base_classes (T_other name) = []"
| "base_classes_list [] = []"
| "base_classes_list (base_specifier virt acc B # bases) =
     B # base_classes B @ base_classes_list bases"

fun public_base_classes :: "unqualified_type \<Rightarrow> unqualified_type list"
and public_base_classes_list :: "base_specifier list \<Rightarrow> unqualified_type list" where
  "public_base_classes (T_class name bases) = public_base_classes_list bases"
| "public_base_classes (T_quantity_spec args) = []"
| "public_base_classes (T_power F vs) = []"
| "public_base_classes (T_per Ts) = []"
| "public_base_classes (T_derived_quantity_spec Expr) = []"
| "public_base_classes (T_other name) = []"
| "public_base_classes_list [] = []"
| "public_base_classes_list (base_specifier virt acc B # bases) =
     (if acc = access_public then B # public_base_classes B else []) @
     public_base_classes_list bases"

fun virtual_base_classes :: "unqualified_type \<Rightarrow> unqualified_type list"
and virtual_base_classes_list :: "base_specifier list \<Rightarrow> unqualified_type list" where
  "virtual_base_classes (T_class name bases) = virtual_base_classes_list bases"
| "virtual_base_classes (T_quantity_spec args) = []"
| "virtual_base_classes (T_power F vs) = []"
| "virtual_base_classes (T_per Ts) = []"
| "virtual_base_classes (T_derived_quantity_spec Expr) = []"
| "virtual_base_classes (T_other name) = []"
| "virtual_base_classes_list [] = []"
| "virtual_base_classes_list (base_specifier virt acc B # bases) =
     (if virt then [B] else []) @ virtual_base_classes B @ virtual_base_classes_list bases"

fun non_virtual_subobjects :: "unqualified_type \<Rightarrow> unqualified_type list"
and non_virtual_subobjects_list :: "base_specifier list \<Rightarrow> unqualified_type list" where
  "non_virtual_subobjects (T_class name bases) =
     T_class name bases # non_virtual_subobjects_list bases"
| "non_virtual_subobjects (T_quantity_spec args) = [T_quantity_spec args]"
| "non_virtual_subobjects (T_power F vs) = [T_power F vs]"
| "non_virtual_subobjects (T_per Ts) = [T_per Ts]"
| "non_virtual_subobjects (T_derived_quantity_spec Expr) = [T_derived_quantity_spec Expr]"
| "non_virtual_subobjects (T_other name) = [T_other name]"
| "non_virtual_subobjects_list [] = []"
| "non_virtual_subobjects_list (base_specifier virt acc B # bases) =
     (if virt then [] else non_virtual_subobjects B) @ non_virtual_subobjects_list bases"

definition subobjects :: "unqualified_type \<Rightarrow> unqualified_type list" where
  "subobjects T =
     non_virtual_subobjects T @
     concat (map non_virtual_subobjects (remdups (virtual_base_classes T)))"

text \<open>The distinct specializations of \<open>quantity_spec\<close> among the base classes of a type.\<close>

definition quantity_spec_base_classes :: "unqualified_type \<Rightarrow> unqualified_type list" where
  "quantity_spec_base_classes T =
     remdups (filter (\<lambda>B. is_specialization_of_quantity_spec (cv_type cv_none B))
                (base_classes T))"

text \<open>
  Whether \<open>requires(T* t) { to_base_specialization_of_quantity_spec(t); }\<close> holds. The
  parameter of the function template is a pointer to \<open>const volatile quantity_spec<...>\<close>
  with the template arguments deduced, so the cv-qualifier of \<open>T\<close> never stands in the
  way. A specialization of \<open>quantity_spec\<close> matches as it is. Otherwise the arguments are
  deduced from a base class: this needs exactly one specialization among the base
  classes, and the pointer conversion to it needs that base class to be unambiguous (one
  subobject) and accessible (reached through public inheritance).
\<close>

fun to_base_specialization_of_quantity_spec :: "cpp_type \<Rightarrow> bool" where
  "to_base_specialization_of_quantity_spec (cv_type q (T_quantity_spec args)) = True"
| "to_base_specialization_of_quantity_spec (cv_type q T) =
     (case quantity_spec_base_classes T of
        [B] \<Rightarrow> count_list (subobjects T) B = 1 \<and> B \<in> set (public_base_classes T)
      | _ \<Rightarrow> False)"

definition NamedQuantitySpec :: "cpp_type \<Rightarrow> bool" where
  "NamedQuantitySpec T =
     (to_base_specialization_of_quantity_spec T \<and> \<not> is_specialization_of_quantity_spec T)"

text \<open>
  Modelled from the spec: \<open>is_specialization_of_power\<close> comes from the expression template
  header; it holds of the Power nodes \<open>power<F, ...>\<close>, whose member \<open>factor\<close> is \<open>F\<close>.
\<close>

fun is_specialization_of_power :: "cpp_type \<Rightarrow> bool" where
  "is_specialization_of_power (cv_type cv_none (T_power F vs)) = True"
| "is_specialization_of_power _ = False"

text \<open>
  The variable template \<open>is_dimensionless\<close> is false in this header; the library
  specializes it elsewhere for its dimensionless identity. It is the parameter \<open>dl\<close> of
  the predicates below.
\<close>

fun is_power_of_quantity_spec :: "(cpp_type \<Rightarrow> bool) \<Rightarrow> cpp_type \<Rightarrow> bool" where
  "is_power_of_quantity_spec dl (cv_type cv_none (T_power F vs)) =
     (is_specialization_of_power (cv_type cv_none (T_power F vs)) \<and>
      (NamedQuantitySpec F \<or> dl F))"
| "is_power_of_quantity_spec dl _ = False"

fun is_per_of_quantity_specs :: "(cpp_type \<Rightarrow> bool) \<Rightarrow> cpp_type \<Rightarrow> bool" where
  "is_per_of_quantity_specs dl (cv_type cv_none (T_per Ts)) =
     list_all (\<lambda>T. NamedQuantitySpec T \<or> dl T \<or> is_power_of_quantity_spec dl T) Ts"
| "is_per_of_quantity_specs dl _ = False"

definition DerivedQuantitySpecExpr :: "(cpp_type \<Rightarrow> bool) \<Rightarrow> cpp_type \<Rightarrow> bool" where
  "DerivedQuantitySpecExpr dl T =
     (NamedQuantitySpec T \<or> dl T \<or> is_power_of_quantity_spec dl T \<or>
      is_per_of_quantity_specs dl T)"

text \<open>
  \<open>template<DerivedQuantitySpecExpr... Expr> struct derived_quantity_spec\<close>: naming the
  specialization for a list of factors is accepted when every factor satisfies the
  constraint, and rejected (\<open>None\<close>) otherwise.
\<close>

definition derived_quantity_spec :: "(cpp_type \<Rightarrow> bool) \<Rightarrow> cpp_type list \<Rightarrow> cpp_type option" where
  "derived_quantity_spec dl Expr =
     (if list_all (DerivedQuantitySpecExpr dl) Expr
      then Some (cv_type cv_none (T_derived_quantity_spec Expr))
      else None)"

fun is_derived_from_specialization_of_derived_quantity_spec :: "cpp_type \<Rightarrow> bool" where
  "is_derived_from_specialization_of_derived_quantity_spec
     (cv_type cv_none (T_derived_quantity_spec Args)) = True"
| "is_derived_from_specialization_of_derived_quantity_spec _ = False"

definition DerivedQuantitySpec :: "cpp_type \<Rightarrow> bool" where
  "DerivedQuantitySpec T = is_derived_from_specialization_of_derived_quantity_spec T"

definition QuantitySpec :: "cpp_type \<Rightarrow> bool" where
  "QuantitySpec T = (NamedQuantitySpec T \<or> DerivedQuantitySpec T)"

section \<open>References (reference.h)\<close>

subsection \<open>Units as the header inspects them\<close>

text \<open>
  \<open>get_associated_quantity\<close> looks at a unit type through four members, each of which may
  be missing: the static member \<open>reference_unit\<close>, the member types \<open>_num_\<close> and \<open>_den_\<close>
  (type lists of factors) and the static member \<open>base_quantity\<close>. A factor of a type list
  is a unit or \<open>power<U, Vs...>\<close>. The quantity specifications are values of a type \<open>'q\<close>
  that the header does not look into.
\<close>

datatype 'q unit =
  Unit (symbol: string) (reference_unit: "'q unit option") (num: "'q unit_factor list option")
       (den: "'q unit_factor list option") (base_quantity: "'q option")
and 'q unit_factor =
    factor_unit "'q unit"
  | factor_power "'q unit" "int list"

datatype 'q reference = reference (Q: 'q) (U: "'q unit")

text \<open>
  What the header takes from the headers it includes: the dimensionless identity, the
  operators \<open>*\<close>, \<open>/\<close> and \<open>==\<close> and the function \<open>interconvertible\<close> on quantity
  specifications and on units, the resolvers \<open>common_quantity_spec\<close> and \<open>common_unit\<close>
  (variadic; \<open>None\<close> when no overload accepts the arguments) and the concept
  \<open>AssociatedUnit\<close>.
\<close>

record 'q algebra =
  dimensionless :: 'q
  qs_mul :: "'q \<Rightarrow> 'q \<Rightarrow> 'q"
  qs_div :: "'q \<Rightarrow> 'q \<Rightarrow> 'q"
  qs_eq :: "'q \<Rightarrow> 'q \<Rightarrow> bool"
  qs_interconvertible :: "'q \<Rightarrow> 'q \<Rightarrow> bool"
  common_quantity_spec :: "'q list \<Rightarrow> 'q option"
  AssociatedUnit :: "'q unit \<Rightarrow> bool"
  unit_mul :: "'q unit \<Rightarrow> 'q unit \<Rightarrow> 'q unit"
  unit_div :: "'q unit \<Rightarrow> 'q unit \<Rightarrow> 'q unit"
  unit_eq :: "'q unit \<Rightarrow> 'q unit \<Rightarrow> bool"
  unit_interconvertible :: "'q unit \<Rightarrow> 'q unit \<Rightarrow> bool"
  common_unit :: "'q unit list \<Rightarrow> 'q unit option"

subsection \<open>The associated quantity of a unit\<close>

text \<open>
  The three overloads of \<open>detail::get_associated_quantity\<close>. The result is \<open>None\<close> where the
  program is rejected: no overload takes the argument (a unit that is not an
  \<open>AssociatedUnit\<close>), \<open>_den_\<close> is missing beside \<open>_num_\<close>, or none of the three branches
  of the \<open>if constexpr\<close> chain returns a value. The fold over a type list is a left fold
  that starts from \<open>dimensionless\<close>; its accumulator is the second argument.
\<close>

fun get_associated_quantity :: "'q algebra \<Rightarrow> 'q unit \<Rightarrow> 'q option"
and get_associated_quantity_power :: "'q algebra \<Rightarrow> 'q unit \<Rightarrow> int list \<Rightarrow> 'q option"
and get_associated_quantity_type_list :: "'q algebra \<Rightarrow> 'q \<Rightarrow> 'q unit_factor list \<Rightarrow> 'q option"
where
  "get_associated_quantity A (Unit s (Some r) n d b) =
     (if AssociatedUnit A (Unit s (Some r) n d b) then get_associated_quantity A r else None)"
| "get_associated_quantity A (Unit s None (Some n) d b) =
     (if AssociatedUnit A (Unit s None (Some n) d b) then
        (case d of
           None \<Rightarrow> None
         | Some d' \<Rightarrow>
            (case get_associated_quantity_type_list A (dimensionless A) n of
               None \<Rightarrow> None
             | Some qn \<Rightarrow>
                (case get_associated_quantity_type_list A (dimensionless A) d' of
                   None \<Rightarrow> None
                 | Some qd \<Rightarrow> Some (qs_div A qn qd))))
      else None)"
| "get_associated_quantity A (Unit s None None d (Some q)) =
     (if AssociatedUnit A (Unit s None None d (Some q)) then Some q else None)"
| "get_associated_quantity A (Unit s None None d None) = None"
| "get_associated_quantity_power A u Vs = get_associated_quantity A u"
| "get_associated_quantity_type_list A acc [] = Some acc"
| "get_associated_quantity_type_list A acc (factor_unit u # Us) =
     (case get_associated_quantity A u of
        None \<Rightarrow> None
      | Some q \<Rightarrow> get_associated_quantity_type_list A (qs_mul A acc q) Us)"
| "get_associated_quantity_type_list A acc (factor_power u Vs # Us) =
     (case get_associated_quantity_power A u Vs of
        None \<Rightarrow> None
      | Some q \<Rightarrow> get_associated_quantity_type_list A (qs_mul A acc q) Us)"

text \<open>The unit that a factor of a type list is built on.\<close>

fun unit_of_factor :: "'q unit_factor \<Rightarrow> 'q unit" where
  "unit_of_factor (factor_unit u) = u"
| "unit_of_factor (factor_power u Vs) = u"

text \<open>\<open>get_quantity_spec\<close> and \<open>get_unit\<close>, each for a unit and for a reference.\<close>

definition get_quantity_spec_unit :: "'q algebra \<Rightarrow> 'q unit \<Rightarrow> 'q option" where
  "get_quantity_spec_unit A u =
     (if AssociatedUnit A u then get_associated_quantity A u else None)"

fun get_quantity_spec :: "'q reference \<Rightarrow> 'q" where
  "get_quantity_spec (reference Q1 U1) = Q1"

definition get_unit_unit :: "'q algebra \<Rightarrow> 'q unit \<Rightarrow> 'q unit option" where
  "get_unit_unit A u = (if AssociatedUnit A u then Some u else None)"

fun get_unit :: "'q reference \<Rightarrow> 'q unit" where
  "get_unit (reference Q1 U1) = U1"

subsection \<open>Operators on references\<close>

text \<open>
  Each operator has an overload for two references and overloads that take a bare unit
  constrained by \<open>AssociatedUnit\<close> on one side. The latter return \<open>None\<close> where the program
  is rejected: the unit does not satisfy the concept, or its quantity specification does
  not resolve.
\<close>

fun reference_eq :: "'q algebra \<Rightarrow> 'q reference \<Rightarrow> 'q reference \<Rightarrow> bool" where
  "reference_eq A (reference Q1 U1) (reference Q2 U2) = (qs_eq A Q1 Q2 \<and> unit_eq A U1 U2)"

fun reference_eq_unit :: "'q algebra \<Rightarrow> 'q reference \<Rightarrow> 'q unit \<Rightarrow> bool option" where
  "reference_eq_unit A (reference Q1 U1) u2 =
     (if AssociatedUnit A u2 then
        (case get_quantity_spec_unit A u2 of
           None \<Rightarrow> None
         | Some q2 \<Rightarrow> Some (qs_eq A Q1 q2 \<and> unit_eq A U1 u2))
      else None)"

fun reference_mul :: "'q algebra \<Rightarrow> 'q reference \<Rightarrow> 'q reference \<Rightarrow> 'q reference" where
  "reference_mul A (reference Q1 U1) (reference Q2 U2) =
     reference (qs_mul A Q1 Q2) (unit_mul A U1 U2)"

fun reference_mul_unit :: "'q algebra \<Rightarrow> 'q reference \<Rightarrow> 'q unit \<Rightarrow> 'q reference option" where
  "reference_mul_unit A (reference Q1 U1) U2 =
     (if AssociatedUnit A U2 then
        (case get_quantity_spec_unit A U2 of
           None \<Rightarrow> None
         | Some q2 \<Rightarrow> Some (reference (qs_mul A Q1 q2) (unit_mul A U1 U2)))
      else None)"

fun unit_mul_reference :: "'q algebra \<Rightarrow> 'q unit \<Rightarrow> 'q reference \<Rightarrow> 'q reference option" where
  "unit_mul_reference A U1 (reference Q2 U2) =
     (if AssociatedUnit A U1 then
        (case get_quantity_spec_unit A U1 of
           None \<Rightarrow> None
         | Some q1 \<Rightarrow> Some (reference (qs_mul A q1 Q2) (unit_mul A U1 U2)))
      else None)"

fun reference_div :: "'q algebra \<Rightarrow> 'q reference \<Rightarrow> 'q reference \<Rightarrow> 'q reference" where
  "reference_div A (reference Q1 U1) (reference Q2 U2) =
     reference (qs_div A Q1 Q2) (unit_div A U1 U2)"

fun reference_div_unit :: "'q algebra \<Rightarrow> 'q reference \<Rightarrow> 'q unit \<Rightarrow> 'q reference option" where
  "reference_div_unit A (reference Q1 U1) U2 =
     (if AssociatedUnit A U2 then
        (case get_quantity_spec_unit A U2 of
           None \<Rightarrow> None
         | Some q2 \<Rightarrow> Some (reference (qs_div A Q1 q2) (unit_div A U1 U2)))
      else None)"

fun unit_div_reference :: "'q algebra \<Rightarrow> 'q unit \<Rightarrow> 'q reference \<Rightarrow> 'q reference option" where
  "unit_div_reference A U1 (reference Q2 U2) =
     (if AssociatedUnit A U1 then
        (case get_quantity_spec_unit A U1 of
           None \<Rightarrow> None
         | Some q1 \<Rightarrow> Some (reference (qs_div A q1 Q2) (unit_div A U1 U2)))
      else None)"

fun interconvertible :: "'q algebra \<Rightarrow> 'q reference \<Rightarrow> 'q reference \<Rightarrow> bool" where
  "interconvertible A (reference Q1 U1) (reference Q2 U2) =
     (qs_interconvertible A Q1 Q2 \<and> unit_interconvertible A U1 U2)"

fun interconvertible_reference_unit :: "'q algebra \<Rightarrow> 'q reference \<Rightarrow> 'q unit \<Rightarrow> bool option" where
  "interconvertible_reference_unit A (reference Q1 U1) u2 =
     (if AssociatedUnit A u2 then
        (case get_quantity_spec_unit A u2 of
           None \<Rightarrow> None
         | Some q2 \<Rightarrow> Some (qs_interconvertible A Q1 q2 \<and> unit_interconvertible A U1 u2))
      else None)"

definition interconvertible_unit_reference :: "'q algebra \<Rightarrow> 'q unit \<Rightarrow> 'q reference \<Rightarrow> bool option" where
  "interconvertible_unit_reference A u1 r2 =
     (if AssociatedUnit A u1 then interconvertible_reference_unit A r2 u1 else None)"

subsection \<open>Binding a representation value to a reference\<close>

text \<open>
  The left operand of \<open>lhs * r\<close> is a value of some representation type or a quantity.
  Two function templates are candidates: the one that builds a quantity, viable when the
  type of \<open>lhs\<close> satisfies \<open>RepresentationOf\<close> for the character of the reference's
  quantity specification, and the deleted one, viable when \<open>lhs\<close> is a quantity. Neither
  is more specialized than the other, so a call for which both are viable is ambiguous.
  The character of a quantity specification and the concept \<open>RepresentationOf\<close> come from
  other headers and are parameters.
\<close>

datatype ('q, 'rep) quantity = quantity (quantity_reference: "'q reference") (number: 'rep)

datatype ('q, 'rep) operand = Rep 'rep | Quantity "('q, 'rep) quantity"

datatype rejection = deleted_function string | ambiguous_call | no_matching_function

fun rep_mul_reference ::
  "('q \<Rightarrow> 'c) \<Rightarrow> ('c \<Rightarrow> ('q, 'rep) operand \<Rightarrow> bool) \<Rightarrow> ('q, 'rep) operand \<Rightarrow> 'q reference \<Rightarrow>
     rejection + ('q, 'rep) quantity" where
  "rep_mul_reference character RepresentationOf (Rep lhs) R =
     (if RepresentationOf (character (get_quantity_spec R)) (Rep lhs) then Inr (quantity R lhs)
      else Inl no_matching_function)"
| "rep_mul_reference character RepresentationOf (Quantity q) R =
     (if RepresentationOf (character (get_quantity_spec R)) (Quantity q) then Inl ambiguous_call
      else Inl (deleted_function ''Use `q * (1 * r)` rather than `q * r`.''))"

subsection \<open>The common reference\<close>

text \<open>
  Two overloads: one for two or more units, which needs \<open>common_unit\<close> to give an
  \<open>AssociatedUnit\<close>, and one for two or more references, which needs both
  \<open>common_quantity_spec\<close> of the quantity specifications and \<open>common_unit\<close> of the units
  to give a result. Where the requirement fails the overload is not a candidate: \<open>None\<close>.
\<close>

definition common_reference_units ::
  "'q algebra \<Rightarrow> 'q unit \<Rightarrow> 'q unit \<Rightarrow> 'q unit list \<Rightarrow> 'q unit option" where
  "common_reference_units A u1 u2 rest =
     (if list_all (AssociatedUnit A) (u1 # u2 # rest) then
        (case common_unit A (u1 # u2 # rest) of
           None \<Rightarrow> None
         | Some u \<Rightarrow> if AssociatedUnit A u then Some u else None)
      else None)"

definition common_reference ::
  "'q algebra \<Rightarrow> 'q reference \<Rightarrow> 'q reference \<Rightarrow> 'q reference list \<Rightarrow> 'q reference option" where
  "common_reference A r1 r2 rest =
     (case common_quantity_spec A
             (get_quantity_spec r1 # get_quantity_spec r2 # map get_quantity_spec rest) of
        None \<Rightarrow> None
      | Some q \<Rightarrow>
         (case common_unit A (get_unit r1 # get_unit r2 # map get_unit rest) of
            None \<Rightarrow> None
          | Some u \<Rightarrow> Some (reference q u)))"

section \<open>A small catalogue for evaluation\<close>

text \<open>
  Concrete instances on which the definitions above can be run. A quantity specification
  is a pair of exponents (of length and of time), multiplied and divided exponent by
  exponent; two units are interconvertible when their chains of reference units end in
  the same unit, and the common unit of a list is that last unit.
\<close>

fun root_unit :: "'q unit \<Rightarrow> 'q unit" where
  "root_unit (Unit s (Some r) n d b) = root_unit r"
| "root_unit (Unit s None n d b) = Unit s None n d b"

definition example_algebra :: "(int \<times> int) algebra" where
  "example_algebra =
     \<lparr> dimensionless = (0, 0),
       qs_mul = (\<lambda>a b. (fst a + fst b, snd a + snd b)),
       qs_div = (\<lambda>a b. (fst a - fst b, snd a - snd b)),
       qs_eq = (=),
       qs_interconvertible = (=),
       common_quantity_spec =
         (\<lambda>qs. case qs of
                 [] \<Rightarrow> None
               | q # rest \<Rightarrow> if list_all ((=) q) rest then Some q else None),
       AssociatedUnit =
         (\<lambda>u. reference_unit u \<noteq> None \<or> num u \<noteq> None \<or> base_quantity u \<noteq> None),
       unit_mul = (\<lambda>a b. Unit [] None (Some [factor_unit a, factor_unit b]) (Some []) None),
       unit_div = (\<lambda>a b. Unit [] None (Some [factor_unit a]) (Some [factor_unit b]) None),
       unit_eq = (=),
       unit_interconvertible = (\<lambda>a b. root_unit a = root_unit b),
       common_unit =
         (\<lambda>us. case us of
                 [] \<Rightarrow> None
               | u # rest \<Rightarrow>
                   if list_all (\<lambda>v. root_unit v = root_unit u) rest then Some (root_unit u)
                   else None) \<rparr>"

definition metre :: "(int \<times> int) unit" where
  "metre = Unit ''m'' None None None (Some (1, 0))"

definition second :: "(int \<times> int) unit" where
  "second = Unit ''s'' None None None (Some (0, 1))"

definition kilometre :: "(int \<times> int) unit" where
  "kilometre = Unit ''km'' (Some metre) None None None"

definition square_metre :: "(int \<times> int) unit" where
  "square_metre = Unit ''m2'' None (Some [factor_power metre [2]]) (Some []) None"

text \<open>
  A second instance that keeps the shape of every product and quotient: a quantity
  specification is the text of the expression that built it.
\<close>

definition symbolic_algebra :: "string algebra" where
  "symbolic_algebra =
     \<lparr> dimensionless = ''1'',
       qs_mul = (\<lambda>a b. ''('' @ a @ ''*'' @ b @ '')''),
       qs_div = (\<lambda>a b. ''('' @ a @ ''/'' @ b @ '')''),
       qs_eq = (=),
       qs_interconvertible = (=),
       common_quantity_spec = (\<lambda>qs. None),
       AssociatedUnit = (\<lambda>u. True),
       unit_mul = (\<lambda>a b. Unit [] None (Some [factor_unit a, factor_unit b]) (Some []) None),
       unit_div = (\<lambda>a b. Unit [] None (Some [factor_unit a]) (Some [factor_unit b]) None),
       unit_eq = (=),
       unit_interconvertible = (=),
       common_unit = (\<lambda>us. None) \<rparr>"

definition sym_metre :: "string unit" where
  "sym_metre = Unit ''m'' None None None (Some ''L'')"

definition sym_second :: "string unit" where
  "sym_second = Unit ''s'' None None None (Some ''T'')"

definition sym_kilogram :: "string unit" where
  "sym_kilogram = Unit ''kg'' None None None (Some ''M'')"

definition sym_newton :: "string unit" where
  "sym_newton =
     Unit ''N'' None (Some [factor_unit sym_kilogram, factor_unit sym_metre])
       (Some [factor_power sym_second [2]]) None"

definition sym_joule :: "string unit" where
  "sym_joule =
     Unit ''J'' None (Some [factor_unit sym_newton, factor_unit sym_metre]) (Some []) None"

definition example_character :: "int \<times> int \<Rightarrow> string" where
  "example_character q = ''scalar''"

fun example_RepresentationOf :: "string \<Rightarrow> (int \<times> int, int) operand \<Rightarrow> bool" where
  "example_RepresentationOf c (Rep v) = (c = ''scalar'')"
| "example_RepresentationOf c (Quantity q) = False"

definition length_type :: cpp_type where
  "length_type =
     cv_type cv_none
       (T_class ''length''
          [base_specifier False access_public (T_quantity_spec [''length'', ''dim_length''])])"

definition time_type :: cpp_type where
  "time_type =
     cv_type cv_none
       (T_class ''time''
          [base_specifier False access_public (T_quantity_spec [''time'', ''dim_time''])])"

definition dimensionless_type :: cpp_type where
  "dimensionless_type =
     cv_type cv_none
       (T_class ''dimensionless''
          [base_specifier False access_public
             (T_quantity_spec [''dimensionless'', ''derived_quantity_spec<>{}''])])"

definition example_is_dimensionless :: "cpp_type \<Rightarrow> bool" where
  "example_is_dimensionless T = (T = dimensionless_type)"

section \<open>Properties of the concepts\<close>

lemma quantity_spec_base_classes_no_bases:
  "base_classes T = [] \<Longrightarrow> quantity_spec_base_classes T = []"
  by (simp add: quantity_spec_base_classes_def)

lemma is_power_of_quantity_spec_iff:
  "is_power_of_quantity_spec dl T \<longleftrightarrow>
     (\<exists>F vs. T = cv_type cv_none (T_power F vs) \<and> (NamedQuantitySpec F \<or> dl F))"
  by (cases "(dl, T)" rule: is_power_of_quantity_spec.cases) auto

lemma is_per_of_quantity_specs_iff:
  "is_per_of_quantity_specs dl T \<longleftrightarrow>
     (\<exists>Ts. T = cv_type cv_none (T_per Ts) \<and>
        (\<forall>E\<in>set Ts. NamedQuantitySpec E \<or> dl E \<or> is_power_of_quantity_spec dl E))"
  by (cases "(dl, T)" rule: is_per_of_quantity_specs.cases) (auto simp: list_all_iff)

lemma not_Named_derived_quantity_spec:
  "\<not> NamedQuantitySpec (cv_type q (T_derived_quantity_spec Args))"
  by (simp add: NamedQuantitySpec_def quantity_spec_base_classes_def)

text \<open>
  A derived specification is no more accepted inside a Power or a Per than at the top
  level (unless the library marks it as its dimensionless identity).
\<close>

lemma wrapped_derived_quantity_spec_rejected:
  assumes "\<not> dl (cv_type q (T_derived_quantity_spec Args))"
  shows "\<not> is_power_of_quantity_spec dl
             (cv_type cv_none (T_power (cv_type q (T_derived_quantity_spec Args)) vs))"
    and "\<not> is_per_of_quantity_specs dl
             (cv_type cv_none
                (T_per (before @ cv_type q (T_derived_quantity_spec Args) # after)))"
  using assms
  by (simp_all add: not_Named_derived_quantity_spec is_power_of_quantity_spec_iff)

text \<open>
  What the two conjuncts of \<open>NamedQuantitySpec\<close> leave: a class with a specialization of
  \<open>quantity_spec\<close> among its base classes, or a cv-qualified specialization. The
  unqualified specializations are neither named nor derived specifications.
\<close>

lemma NamedQuantitySpec_cases:
  assumes "NamedQuantitySpec (cv_type q T)"
  shows "(\<exists>name bases. T = T_class name bases \<and>
            (\<exists>args. T_quantity_spec args \<in> set (base_classes T))) \<or>
         (q \<noteq> cv_none \<and> (\<exists>args. T = T_quantity_spec args))"
proof (cases T)
  case (T_quantity_spec args)
  with assms have "q \<noteq> cv_none"
    by (auto simp: NamedQuantitySpec_def)
  with T_quantity_spec show ?thesis by simp
next
  case (T_class name bases)
  with assms obtain B where B: "quantity_spec_base_classes T = [B]"
    by (auto simp: NamedQuantitySpec_def split: list.splits)
  then have "B \<in> set (quantity_spec_base_classes T)" by simp
  then have mem: "B \<in> set (base_classes T)"
    and spec: "is_specialization_of_quantity_spec (cv_type cv_none B)"
    by (simp_all add: quantity_spec_base_classes_def)
  from spec obtain args where "B = T_quantity_spec args"
    by (cases B) simp_all
  with mem have "\<exists>args. T_quantity_spec args \<in> set (base_classes T)"
    by blast
  with T_class show ?thesis by simp
qed (use assms in \<open>simp_all add: NamedQuantitySpec_def quantity_spec_base_classes_def\<close>)

lemma unqualified_quantity_spec_excluded:
  "\<not> NamedQuantitySpec (cv_type cv_none (T_quantity_spec args))"
  "\<not> DerivedQuantitySpec (cv_type cv_none (T_quantity_spec args))"
  "\<not> QuantitySpec (cv_type cv_none (T_quantity_spec args))"
  by (simp_all add: NamedQuantitySpec_def DerivedQuantitySpec_def QuantitySpec_def)

text \<open>
  The hierarchy is read as the language reads it: a base class shared through virtual
  inheritance is one subobject, the same base class inherited twice is ambiguous, and a
  second specialization among the base classes defeats the deduction even when it is
  private.
\<close>

lemma NamedQuantitySpec_hierarchies:
  "NamedQuantitySpec
     (cv_type cv_none
        (T_class ''d''
           [base_specifier False access_public
              (T_class ''b1'' [base_specifier True access_public (T_quantity_spec [''q''])]),
            base_specifier False access_public
              (T_class ''b2'' [base_specifier True access_public (T_quantity_spec [''q''])])]))"
  "\<not> NamedQuantitySpec
       (cv_type cv_none
          (T_class ''d''
             [base_specifier False access_public
                (T_class ''b1'' [base_specifier False access_public (T_quantity_spec [''q''])]),
              base_specifier False access_public
                (T_class ''b2'' [base_specifier False access_public (T_quantity_spec [''q''])])]))"
  "\<not> NamedQuantitySpec
       (cv_type cv_none
          (T_class ''d''
             [base_specifier False access_public (T_quantity_spec [''q'']),
              base_specifier False access_private (T_quantity_spec [''r''])]))"
  "\<not> NamedQuantitySpec
       (cv_type cv_none
          (T_class ''d'' [base_specifier False access_private (T_quantity_spec [''q''])]))"
  "NamedQuantitySpec
     (cv_type cv_const
        (T_class ''d'' [base_specifier False access_public (T_quantity_spec [''q''])]))"
  "\<not> NamedQuantitySpec (cv_type cv_none (T_other ''int''))"
  by (simp_all add: NamedQuantitySpec_def quantity_spec_base_classes_def subobjects_def)

text \<open>
  Claim C6. A list of factors is accepted by \<open>derived_quantity_spec\<close> exactly when every
  factor is a named quantity specification, the dimensionless identity, a Power whose
  factor is one of these two, or a Per all of whose elements are of these three kinds.
  In particular a specialization of \<open>derived_quantity_spec\<close> (that the library does not
  mark as its dimensionless identity) is not an admissible factor, and a list of factors
  that contains it bare is rejected.
\<close>

theorem derived_quantity_spec_factors:
  "(derived_quantity_spec dl Expr \<noteq> None \<longleftrightarrow>
      (\<forall>E\<in>set Expr.
          NamedQuantitySpec E \<or> dl E \<or>
          (\<exists>F vs. E = cv_type cv_none (T_power F vs) \<and> (NamedQuantitySpec F \<or> dl F)) \<or>
          (\<exists>Ts. E = cv_type cv_none (T_per Ts) \<and>
             (\<forall>T\<in>set Ts. NamedQuantitySpec T \<or> dl T \<or>
                 (\<exists>F vs. T = cv_type cv_none (T_power F vs) \<and>
                    (NamedQuantitySpec F \<or> dl F)))))) \<and>
   (\<not> dl (cv_type q (T_derived_quantity_spec Args)) \<longrightarrow>
      \<not> DerivedQuantitySpecExpr dl (cv_type q (T_derived_quantity_spec Args)) \<and>
      derived_quantity_spec dl (before @ cv_type q (T_derived_quantity_spec Args) # after) =
        None)"
  by (simp add: derived_quantity_spec_def list_all_iff DerivedQuantitySpecExpr_def
      is_power_of_quantity_spec_iff is_per_of_quantity_specs_iff
      not_Named_derived_quantity_spec)

theorem derived_quantity_spec_factors_witness:
  "\<not> example_is_dimensionless
       (cv_type cv_none
          (T_derived_quantity_spec [length_type, cv_type cv_none (T_per [time_type])])) \<and>
   derived_quantity_spec example_is_dimensionless
     [length_type, cv_type cv_none (T_per [time_type])] =
     Some (cv_type cv_none
             (T_derived_quantity_spec [length_type, cv_type cv_none (T_per [time_type])])) \<and>
   derived_quantity_spec example_is_dimensionless
     ([] @ cv_type cv_none
             (T_derived_quantity_spec [length_type, cv_type cv_none (T_per [time_type])]) #
        [time_type]) = None"
proof -
  let ?speed = "[length_type, cv_type cv_none (T_per [time_type])]"
  have dl: "\<not> example_is_dimensionless (cv_type cv_none (T_derived_quantity_spec ?speed))"
    by (simp add: example_is_dimensionless_def dimensionless_type_def)
  have named: "NamedQuantitySpec length_type" "NamedQuantitySpec time_type"
    by (simp_all add: NamedQuantitySpec_def quantity_spec_base_classes_def subobjects_def
        length_type_def time_type_def)
  have "derived_quantity_spec example_is_dimensionless ?speed \<noteq> None"
    using derived_quantity_spec_factors [of example_is_dimensionless ?speed] named
    by simp
  then have accepted:
    "derived_quantity_spec example_is_dimensionless ?speed =
       Some (cv_type cv_none (T_derived_quantity_spec ?speed))"
    by (simp add: derived_quantity_spec_def split: if_splits)
  have rejected:
    "derived_quantity_spec example_is_dimensionless
       ([] @ cv_type cv_none (T_derived_quantity_spec ?speed) # [time_type]) = None"
    using derived_quantity_spec_factors
            [where dl = example_is_dimensionless and q = cv_none and Args = ?speed
               and before = "[]" and after = "[time_type]"] dl
    by blast
  from dl accepted rejected show ?thesis by blast
qed

text \<open>
  Claim C10. The concept \<open>NamedQuantitySpec\<close> is documented as satisfied by the types that
  derive from \<open>quantity_spec\<close>, and it excludes the specializations of \<open>quantity_spec\<close>
  themselves through \<open>is_specialization_of_quantity_spec\<close>. The exclusion misses the
  cv-qualified specializations: \<open>const quantity_spec<length, dim_length>\<close> derives from
  nothing, yet it is not matched by the partial specialization while its pointer converts
  to the \<open>const volatile\<close> parameter. It satisfies \<open>NamedQuantitySpec\<close> and \<open>QuantitySpec\<close>,
  and \<open>derived_quantity_spec\<close> accepts it as a factor, also with the \<open>is_dimensionless\<close> of
  the header, which is false everywhere.
\<close>

theorem NamedQuantitySpec_const_quantity_spec:
  "base_classes (T_quantity_spec [''length'', ''dim_length'']) = [] \<and>
   \<not> is_specialization_of_quantity_spec
       (cv_type cv_const (T_quantity_spec [''length'', ''dim_length''])) \<and>
   NamedQuantitySpec (cv_type cv_const (T_quantity_spec [''length'', ''dim_length''])) \<and>
   QuantitySpec (cv_type cv_const (T_quantity_spec [''length'', ''dim_length''])) \<and>
   derived_quantity_spec (\<lambda>T. False)
     [cv_type cv_const (T_quantity_spec [''length'', ''dim_length''])] =
     Some (cv_type cv_none
             (T_derived_quantity_spec
                [cv_type cv_const (T_quantity_spec [''length'', ''dim_length''])]))"
  by (simp add: NamedQuantitySpec_def QuantitySpec_def derived_quantity_spec_def
      DerivedQuantitySpecExpr_def)

section \<open>Properties of references\<close>

lemma get_quantity_spec_unit_associated:
  "AssociatedUnit A u \<Longrightarrow> get_quantity_spec_unit A u = get_associated_quantity A u"
  by (simp add: get_quantity_spec_unit_def)

text \<open>
  The quantity of a type list is the product, from the left and starting at the
  accumulator, of the quantities of the units of its factors; it fails when one of them
  does not resolve.
\<close>

lemma get_associated_quantity_type_list_foldl:
  "get_associated_quantity_type_list A acc Us =
     (case those (map (\<lambda>f. get_associated_quantity A (unit_of_factor f)) Us) of
        None \<Rightarrow> None
      | Some qs \<Rightarrow> Some (foldl (qs_mul A) acc qs))"
proof (induction Us arbitrary: acc)
  case Nil
  show ?case by simp
next
  case (Cons f Us)
  show ?case
    by (cases f) (simp_all add: Cons.IH split: option.splits)
qed

text \<open>
  Claim C1. The common reference of two or more references exists exactly when both the
  common quantity specification of their quantity specifications and the common unit of
  their units exist, and it is then the reference made of these two; when either is
  missing there is no common reference.
\<close>

theorem common_reference_defined_iff:
  "(common_reference A r1 r2 rest \<noteq> None \<longleftrightarrow>
      common_quantity_spec A (map get_quantity_spec (r1 # r2 # rest)) \<noteq> None \<and>
      common_unit A (map get_unit (r1 # r2 # rest)) \<noteq> None) \<and>
   (\<forall>q u. common_quantity_spec A (map get_quantity_spec (r1 # r2 # rest)) = Some q \<longrightarrow>
          common_unit A (map get_unit (r1 # r2 # rest)) = Some u \<longrightarrow>
          common_reference A r1 r2 rest = Some (reference q u))"
  by (auto simp: common_reference_def split: option.splits)

theorem common_reference_defined_iff_witness:
  "common_reference example_algebra (reference (1, 0) kilometre) (reference (1, 0) metre) [] =
     Some (reference (1, 0) metre) \<and>
   common_reference example_algebra (reference (1, 0) kilometre) (reference (0, 1) second) [] =
     None"
proof -
  have q: "common_quantity_spec example_algebra
             (map get_quantity_spec [reference (1, 0) kilometre, reference (1, 0) metre]) =
           Some (1, 0)"
    by (simp add: example_algebra_def)
  have u: "common_unit example_algebra
             (map get_unit [reference (1, 0) kilometre, reference (1, 0) metre]) = Some metre"
    by (simp add: example_algebra_def kilometre_def metre_def)
  have defined:
    "common_reference example_algebra (reference (1, 0) kilometre) (reference (1, 0) metre) [] =
       Some (reference (1, 0) metre)"
    using common_reference_defined_iff
            [of example_algebra "reference (1, 0) kilometre" "reference (1, 0) metre" "[]"] q u
    by blast
  have "common_quantity_spec example_algebra
          (map get_quantity_spec [reference (1, 0) kilometre, reference (0, 1) second]) = None"
    by (simp add: example_algebra_def)
  then have undefined:
    "common_reference example_algebra (reference (1, 0) kilometre) (reference (0, 1) second) [] =
       None"
    using common_reference_defined_iff
            [of example_algebra "reference (1, 0) kilometre" "reference (0, 1) second" "[]"]
    by auto
  from defined undefined show ?thesis by simp
qed

text \<open>
  Claim C2. Two references are equal exactly when their quantity specifications are equal
  and their units are equal; a reference and a bare associated unit are equal exactly when
  the quantity specification of the reference equals the one associated with the unit and
  the unit of the reference equals the unit.
\<close>

theorem reference_equality:
  "(reference_eq A (reference Q1 U1) (reference Q2 U2) \<longleftrightarrow>
      qs_eq A Q1 Q2 \<and> unit_eq A U1 U2) \<and>
   (AssociatedUnit A u2 \<longrightarrow> get_associated_quantity A u2 = Some q2 \<longrightarrow>
      reference_eq_unit A (reference Q1 U1) u2 = Some (qs_eq A Q1 q2 \<and> unit_eq A U1 u2))"
  by (simp add: get_quantity_spec_unit_def)

theorem reference_equality_witness:
  "AssociatedUnit example_algebra metre \<and>
   get_associated_quantity example_algebra metre = Some (1, 0) \<and>
   reference_eq_unit example_algebra (reference (1, 0) metre) metre = Some True \<and>
   reference_eq_unit example_algebra (reference (0, 1) metre) metre = Some False \<and>
   \<not> reference_eq example_algebra (reference (1, 0) metre) (reference (1, 0) kilometre)"
proof -
  have a: "AssociatedUnit example_algebra metre"
    by (simp add: example_algebra_def metre_def)
  have g: "get_associated_quantity example_algebra metre = Some (1, 0)"
    by (simp add: example_algebra_def metre_def)
  have e: "qs_eq example_algebra = (=)" "unit_eq example_algebra = (=)"
    by (simp_all add: example_algebra_def)
  have "metre \<noteq> kilometre"
    by (simp add: metre_def kilometre_def)
  with a g e
    reference_equality [of example_algebra "(1, 0)" metre "(1, 0)" kilometre metre "(1, 0)"]
    reference_equality [of example_algebra "(0, 1)" metre "(1, 0)" kilometre metre "(1, 0)"]
  show ?thesis by simp
qed

text \<open>
  Claim C3. The product and the quotient of two references are taken side by side: the
  quantity specifications are multiplied (divided) and the units are multiplied
  (divided). With a bare associated unit on either side, the result is that of the same
  operation on the reference made of the unit's quantity specification and the unit.
\<close>

theorem reference_mul_div_pointwise:
  "reference_mul A (reference Q1 U1) (reference Q2 U2) =
     reference (qs_mul A Q1 Q2) (unit_mul A U1 U2) \<and>
   reference_div A (reference Q1 U1) (reference Q2 U2) =
     reference (qs_div A Q1 Q2) (unit_div A U1 U2) \<and>
   (AssociatedUnit A u \<longrightarrow> get_quantity_spec_unit A u = Some q \<longrightarrow>
      reference_mul_unit A r u = Some (reference_mul A r (reference q u)) \<and>
      unit_mul_reference A u r = Some (reference_mul A (reference q u) r) \<and>
      reference_div_unit A r u = Some (reference_div A r (reference q u)) \<and>
      unit_div_reference A u r = Some (reference_div A (reference q u) r))"
  by (cases r) simp

theorem reference_mul_div_pointwise_witness:
  "AssociatedUnit example_algebra second \<and>
   get_quantity_spec_unit example_algebra second = Some (0, 1) \<and>
   reference_div_unit example_algebra (reference (1, 0) kilometre) second =
     Some (reference (1, - 1)
             (Unit [] None (Some [factor_unit kilometre]) (Some [factor_unit second]) None)) \<and>
   unit_mul_reference example_algebra second (reference (1, 0) kilometre) =
     Some (reference (1, 1)
             (Unit [] None (Some [factor_unit second, factor_unit kilometre]) (Some []) None))"
proof -
  have a: "AssociatedUnit example_algebra second"
    by (simp add: example_algebra_def second_def)
  have g: "get_quantity_spec_unit example_algebra second = Some (0, 1)"
    by (simp add: get_quantity_spec_unit_def example_algebra_def second_def)
  have ops:
    "reference_div example_algebra (reference (1, 0) kilometre) (reference (0, 1) second) =
       reference (1, - 1)
         (Unit [] None (Some [factor_unit kilometre]) (Some [factor_unit second]) None)"
    "reference_mul example_algebra (reference (0, 1) second) (reference (1, 0) kilometre) =
       reference (1, 1)
         (Unit [] None (Some [factor_unit second, factor_unit kilometre]) (Some []) None)"
    by (simp_all add: example_algebra_def)
  from a g ops
    reference_mul_div_pointwise
      [where A = example_algebra and u = second and q = "(0, 1)"
         and r = "reference (1, 0) kilometre"]
  show ?thesis by simp
qed

text \<open>
  Claim C4. Two references are interconvertible exactly when their quantity
  specifications are and their units are. With a bare associated unit in place of one
  reference, the unit's associated quantity specification is its quantity specification
  side, and the answer does not depend on which side the unit is written.
\<close>

theorem interconvertible_pointwise:
  "(interconvertible A (reference Q1 U1) (reference Q2 U2) \<longleftrightarrow>
      qs_interconvertible A Q1 Q2 \<and> unit_interconvertible A U1 U2) \<and>
   (AssociatedUnit A u \<longrightarrow> get_quantity_spec_unit A u = Some q \<longrightarrow>
      interconvertible_reference_unit A r u = Some (interconvertible A r (reference q u))) \<and>
   interconvertible_unit_reference A u r = interconvertible_reference_unit A r u"
  by (cases r) (simp add: interconvertible_unit_reference_def)

theorem interconvertible_pointwise_witness:
  "AssociatedUnit example_algebra metre \<and>
   get_quantity_spec_unit example_algebra metre = Some (1, 0) \<and>
   interconvertible_reference_unit example_algebra (reference (1, 0) kilometre) metre =
     Some True \<and>
   interconvertible_unit_reference example_algebra metre (reference (1, 0) kilometre) =
     Some True \<and>
   \<not> interconvertible example_algebra (reference (1, 0) kilometre) (reference (0, 1) second)"
proof -
  have a: "AssociatedUnit example_algebra metre"
    by (simp add: example_algebra_def metre_def)
  have g: "get_quantity_spec_unit example_algebra metre = Some (1, 0)"
    by (simp add: get_quantity_spec_unit_def example_algebra_def metre_def)
  have i: "interconvertible example_algebra (reference (1, 0) kilometre) (reference (1, 0) metre)"
    by (simp add: example_algebra_def kilometre_def metre_def)
  have n: "\<not> qs_interconvertible example_algebra (1, 0) (0, 1)"
    by (simp add: example_algebra_def)
  from a g i n
    interconvertible_pointwise
      [where A = example_algebra and u = metre and q = "(1, 0)"
         and r = "reference (1, 0) kilometre" and ?Q1.0 = "(1, 0)" and ?U1.0 = kilometre
         and ?Q2.0 = "(0, 1)" and ?U2.0 = second]
  show ?thesis by simp
qed

text \<open>
  Claim C5. The quantity specification associated with a unit is found by cases on the
  unit's definition, tried in this order: a unit that declares a reference unit has the
  associated quantity of that reference unit; otherwise a unit that is a ratio of a
  numerator and a denominator has the quotient of the quantities resolved for the two
  sides; otherwise a unit that declares a base quantity has that base quantity. A side
  is resolved recursively: each of its factors to the associated quantity of its unit,
  and these multiplied from the left onto \<open>dimensionless\<close>. \<open>get_quantity_spec\<close> of a
  unit is its associated quantity.
\<close>

theorem get_associated_quantity_by_cases:
  "AssociatedUnit A u \<Longrightarrow>
     get_quantity_spec_unit A u = get_associated_quantity A u \<and>
     (\<forall>r. reference_unit u = Some r \<longrightarrow>
          get_associated_quantity A u = get_associated_quantity A r) \<and>
     (\<forall>n d qn qd. reference_unit u = None \<longrightarrow> num u = Some n \<longrightarrow> den u = Some d \<longrightarrow>
          get_associated_quantity_type_list A (dimensionless A) n = Some qn \<longrightarrow>
          get_associated_quantity_type_list A (dimensionless A) d = Some qd \<longrightarrow>
          get_associated_quantity A u = Some (qs_div A qn qd)) \<and>
     (\<forall>q. reference_unit u = None \<longrightarrow> num u = None \<longrightarrow> base_quantity u = Some q \<longrightarrow>
          get_associated_quantity A u = Some q) \<and>
     (\<forall>n d qns qds. reference_unit u = None \<longrightarrow> num u = Some n \<longrightarrow> den u = Some d \<longrightarrow>
          those (map (\<lambda>f. get_associated_quantity A (unit_of_factor f)) n) = Some qns \<longrightarrow>
          those (map (\<lambda>f. get_associated_quantity A (unit_of_factor f)) d) = Some qds \<longrightarrow>
          get_associated_quantity A u =
            Some (qs_div A (foldl (qs_mul A) (dimensionless A) qns)
                           (foldl (qs_mul A) (dimensionless A) qds))) \<and>
     (\<forall>acc Us. get_associated_quantity_type_list A acc Us =
          (case those (map (\<lambda>f. get_associated_quantity A (unit_of_factor f)) Us) of
             None \<Rightarrow> None
           | Some qs \<Rightarrow> Some (foldl (qs_mul A) acc qs)))"
proof -
  assume a: "AssociatedUnit A u"
  have spec: "get_quantity_spec_unit A u = get_associated_quantity A u"
    using a by (simp add: get_quantity_spec_unit_def)
  have ref: "\<forall>r. reference_unit u = Some r \<longrightarrow>
               get_associated_quantity A u = get_associated_quantity A r"
    using a by (cases u) auto
  have ratio: "\<forall>n d qn qd. reference_unit u = None \<longrightarrow> num u = Some n \<longrightarrow> den u = Some d \<longrightarrow>
          get_associated_quantity_type_list A (dimensionless A) n = Some qn \<longrightarrow>
          get_associated_quantity_type_list A (dimensionless A) d = Some qd \<longrightarrow>
          get_associated_quantity A u = Some (qs_div A qn qd)"
    using a by (cases u) auto
  have base: "\<forall>q. reference_unit u = None \<longrightarrow> num u = None \<longrightarrow> base_quantity u = Some q \<longrightarrow>
          get_associated_quantity A u = Some q"
    using a by (cases u) auto
  have sides: "\<forall>n d qns qds. reference_unit u = None \<longrightarrow> num u = Some n \<longrightarrow> den u = Some d \<longrightarrow>
          those (map (\<lambda>f. get_associated_quantity A (unit_of_factor f)) n) = Some qns \<longrightarrow>
          those (map (\<lambda>f. get_associated_quantity A (unit_of_factor f)) d) = Some qds \<longrightarrow>
          get_associated_quantity A u =
            Some (qs_div A (foldl (qs_mul A) (dimensionless A) qns)
                           (foldl (qs_mul A) (dimensionless A) qds))"
    using ratio by (simp add: get_associated_quantity_type_list_foldl)
  have fold: "\<forall>acc Us. get_associated_quantity_type_list A acc Us =
          (case those (map (\<lambda>f. get_associated_quantity A (unit_of_factor f)) Us) of
             None \<Rightarrow> None
           | Some qs \<Rightarrow> Some (foldl (qs_mul A) acc qs))"
    by (simp add: get_associated_quantity_type_list_foldl)
  from spec ref ratio base sides fold show ?thesis by blast
qed

theorem get_associated_quantity_by_cases_witness:
  "AssociatedUnit example_algebra kilometre \<and>
   get_associated_quantity example_algebra kilometre =
     get_associated_quantity example_algebra metre \<and>
   get_associated_quantity example_algebra metre = Some (1, 0) \<and>
   get_associated_quantity example_algebra
     (Unit [] None (Some [factor_unit kilometre]) (Some [factor_unit second]) None) =
     Some (1, - 1) \<and>
   get_associated_quantity example_algebra
     (Unit [] None (Some [factor_unit metre, factor_unit second]) (Some []) None) =
     Some (1, 1) \<and>
   AssociatedUnit symbolic_algebra sym_newton \<and>
   get_associated_quantity symbolic_algebra sym_newton = Some ''(((1*M)*L)/(1*T))'' \<and>
   AssociatedUnit symbolic_algebra sym_joule \<and>
   get_associated_quantity symbolic_algebra sym_joule =
     Some ''(((1*(((1*M)*L)/(1*T)))*L)/1)''"
proof -
  let ?kmps = "Unit [] None (Some [factor_unit kilometre]) (Some [factor_unit second]) None"
  let ?ms = "Unit [] None (Some [factor_unit metre, factor_unit second]) (Some []) None"
  have a: "AssociatedUnit example_algebra kilometre" "AssociatedUnit example_algebra metre"
    "AssociatedUnit example_algebra ?kmps" "AssociatedUnit example_algebra ?ms"
    by (simp_all add: example_algebra_def kilometre_def metre_def)
  have km: "get_associated_quantity example_algebra kilometre =
              get_associated_quantity example_algebra metre"
    using get_associated_quantity_by_cases [OF a(1)] by (simp add: kilometre_def)
  have m: "get_associated_quantity example_algebra metre = Some (1, 0)"
    using get_associated_quantity_by_cases [OF a(2)] by (simp add: metre_def)
  have s: "get_associated_quantity example_algebra second = Some (0, 1)"
    by (simp add: example_algebra_def second_def)
  have "get_associated_quantity example_algebra ?kmps =
          Some (qs_div example_algebra
                  (foldl (qs_mul example_algebra) (dimensionless example_algebra) [(1, 0)])
                  (foldl (qs_mul example_algebra) (dimensionless example_algebra) [(0, 1)]))"
    using get_associated_quantity_by_cases [OF a(3)] km m s by simp
  then have kmps: "get_associated_quantity example_algebra ?kmps = Some (1, - 1)"
    by (simp add: example_algebra_def)
  have "get_associated_quantity example_algebra ?ms =
          Some (qs_div example_algebra
                  (foldl (qs_mul example_algebra) (dimensionless example_algebra)
                     [(1, 0), (0, 1)])
                  (foldl (qs_mul example_algebra) (dimensionless example_algebra) []))"
    using get_associated_quantity_by_cases [OF a(4)] m s by simp
  then have ms: "get_associated_quantity example_algebra ?ms = Some (1, 1)"
    by (simp add: example_algebra_def)
  have sa: "AssociatedUnit symbolic_algebra sym_newton"
    "AssociatedUnit symbolic_algebra sym_joule"
    by (simp_all add: symbolic_algebra_def)
  have sb: "get_associated_quantity symbolic_algebra sym_kilogram = Some ''M''"
    "get_associated_quantity symbolic_algebra sym_metre = Some ''L''"
    "get_associated_quantity symbolic_algebra sym_second = Some ''T''"
    by (simp_all add: symbolic_algebra_def sym_kilogram_def sym_metre_def sym_second_def)
  have "get_associated_quantity symbolic_algebra sym_newton =
          Some (qs_div symbolic_algebra
                  (foldl (qs_mul symbolic_algebra) (dimensionless symbolic_algebra)
                     [''M'', ''L''])
                  (foldl (qs_mul symbolic_algebra) (dimensionless symbolic_algebra) [''T'']))"
    using get_associated_quantity_by_cases [OF sa(1)] sb by (simp add: sym_newton_def)
  then have newton:
    "get_associated_quantity symbolic_algebra sym_newton = Some ''(((1*M)*L)/(1*T))''"
    by (simp add: symbolic_algebra_def)
  have "get_associated_quantity symbolic_algebra sym_joule =
          Some (qs_div symbolic_algebra
                  (foldl (qs_mul symbolic_algebra) (dimensionless symbolic_algebra)
                     [''(((1*M)*L)/(1*T))'', ''L''])
                  (foldl (qs_mul symbolic_algebra) (dimensionless symbolic_algebra) []))"
    using get_associated_quantity_by_cases [OF sa(2)] newton sb by (simp add: sym_joule_def)
  then have joule:
    "get_associated_quantity symbolic_algebra sym_joule =
       Some ''(((1*(((1*M)*L)/(1*T)))*L)/1)''"
    by (simp add: symbolic_algebra_def)
  from a(1) km m kmps ms sa newton joule show ?thesis by simp
qed

text \<open>
  Claim C7. Multiplying a value that is already a quantity by a reference is always
  rejected; unless the quantity type itself counts as a representation type for the
  reference (in which case the call is ambiguous), the rejection is the deleted overload
  with its directive to write \<open>q * (1 * r)\<close>. Multiplying a value of a representation type
  by a reference gives the quantity of that value bound to that reference.
\<close>

theorem rep_mul_reference_guard:
  "(\<exists>e. rep_mul_reference character RepresentationOf (Quantity q) R = Inl e) \<and>
   (\<not> RepresentationOf (character (get_quantity_spec R)) (Quantity q) \<longrightarrow>
      rep_mul_reference character RepresentationOf (Quantity q) R =
        Inl (deleted_function ''Use `q * (1 * r)` rather than `q * r`.'')) \<and>
   (RepresentationOf (character (get_quantity_spec R)) (Rep v) \<longrightarrow>
      rep_mul_reference character RepresentationOf (Rep v) R = Inr (quantity R v))"
  by simp

theorem rep_mul_reference_guard_witness:
  "example_RepresentationOf (example_character (1, 0)) (Rep 90) \<and>
   \<not> example_RepresentationOf (example_character (1, 0))
        (Quantity (quantity (reference (1, 0) metre) 3)) \<and>
   rep_mul_reference example_character example_RepresentationOf (Rep 90)
     (reference (1, 0) kilometre) = Inr (quantity (reference (1, 0) kilometre) 90) \<and>
   rep_mul_reference example_character example_RepresentationOf
     (Quantity (quantity (reference (1, 0) metre) 3)) (reference (1, 0) kilometre) =
     Inl (deleted_function ''Use `q * (1 * r)` rather than `q * r`.'')"
proof -
  have r: "example_RepresentationOf (example_character (1, 0)) (Rep 90)"
    by (simp add: example_character_def)
  have n: "\<not> example_RepresentationOf (example_character (1, 0))
               (Quantity (quantity (reference (1, 0) metre) 3))"
    by simp
  from r n
    rep_mul_reference_guard
      [of example_character example_RepresentationOf "quantity (reference (1, 0) metre) 3"
          "reference (1, 0) kilometre" 90]
  show ?thesis by simp
qed

text \<open>
  Claim C8. If interconvertibility of quantity specifications and interconvertibility of
  units are reflexive, then every reference is interconvertible with itself.
\<close>

theorem interconvertible_refl:
  "(\<forall>q. qs_interconvertible A q q) \<Longrightarrow> (\<forall>u. unit_interconvertible A u u) \<Longrightarrow>
     interconvertible A X X"
  by (cases X) simp

theorem interconvertible_refl_witness:
  "(\<forall>q. qs_interconvertible example_algebra q q) \<and>
   (\<forall>u. unit_interconvertible example_algebra u u) \<and>
   interconvertible example_algebra (reference (1, - 1) kilometre) (reference (1, - 1) kilometre)"
proof -
  have q: "\<forall>q. qs_interconvertible example_algebra q q"
    by (simp add: example_algebra_def)
  have u: "\<forall>u. unit_interconvertible example_algebra u u"
    by (simp add: example_algebra_def)
  from q u interconvertible_refl [OF q u, of "reference (1, - 1) kilometre"]
  show ?thesis by blast
qed

text \<open>
  Claim C9. For a factor \<open>power<U, Vs...>\<close> the associated quantity is that of the unit
  \<open>U\<close>: the exponent is dropped, whatever it is, so that inside a type list the factor
  counts as the bare unit would.
\<close>

theorem get_associated_quantity_power_drops_exponent:
  "get_associated_quantity_power A u Vs = get_associated_quantity A u \<and>
   get_associated_quantity_power A u Vs = get_associated_quantity_power A u Ws \<and>
   get_associated_quantity_type_list A acc (factor_power u Vs # Us) =
     get_associated_quantity_type_list A acc (factor_unit u # Us)"
  by simp

theorem get_associated_quantity_power_drops_exponent_witness:
  "get_associated_quantity_power example_algebra metre [2] = Some (1, 0) \<and>
   get_associated_quantity_power example_algebra metre [2] \<noteq>
     Some (qs_mul example_algebra (1, 0) (1, 0)) \<and>
   get_associated_quantity example_algebra square_metre = Some (1, 0)"
proof -
  have m: "get_associated_quantity example_algebra metre = Some (1, 0)"
    by (simp add: example_algebra_def metre_def)
  have p: "get_associated_quantity_power example_algebra metre [2] = Some (1, 0)"
    using get_associated_quantity_power_drops_exponent [of example_algebra metre "[2]"] m
    by simp
  have l: "get_associated_quantity_type_list example_algebra (dimensionless example_algebra)
             [factor_power metre [2]] = Some (1, 0)"
    using get_associated_quantity_power_drops_exponent
            [of example_algebra metre "[2]" "[2]" "dimensionless example_algebra" "[]"] m
    by (simp add: example_algebra_def)
  have a: "AssociatedUnit example_algebra square_metre"
    by (simp add: example_algebra_def square_metre_def)
  have "get_associated_quantity example_algebra square_metre = Some (1, 0)"
    using l a by (simp add: square_metre_def example_algebra_def)
  with p show ?thesis by (simp add: example_algebra_def)
qed

end
